theory Spec2Isabelle
  imports Complex_Main
begin

section \<open>JavaScript values shared by the components\<close>

text \<open>
  Playback times are JavaScript numbers; they are modelled as reals. Strings are
  character lists. A thrown exception is a value: an operation that can throw returns
  the state it leaves behind together with the exception, if any, since the mutations
  made before a throw persist.
\<close>

datatype js_error = TypeError | CollaboratorError

type_synonym 'a outcome = "'a \<times> js_error option"

text \<open>\<open>String.prototype.trim\<close>: white space and line terminators of the Latin-1 range.\<close>

definition js_whitespace :: "char \<Rightarrow> bool" where
  "js_whitespace c \<longleftrightarrow>
     c \<in> {CHR 0x09, CHR 0x0A, CHR 0x0B, CHR 0x0C, CHR 0x0D, CHR 0x20, CHR 0xA0}"

definition js_trim :: "string \<Rightarrow> string" where
  "js_trim s = rev (dropWhile js_whitespace (rev (dropWhile js_whitespace s)))"

text \<open>\<open>String.prototype.split('\n')\<close>: the empty string gives one empty line.\<close>

fun split_lines :: "string \<Rightarrow> string list" where
  "split_lines [] = [[]]"
| "split_lines (c # cs) =
     (if c = CHR 0x0A then [] # split_lines cs
      else (case split_lines cs of
              [] \<Rightarrow> [[c]]
            | l # ls \<Rightarrow> (c # l) # ls))"

text \<open>The character classes \<open>\d\<close> and \<open>["']\<close>; \<open>\s\<close> is \<^const>\<open>js_whitespace\<close>.\<close>

definition is_digit :: "char \<Rightarrow> bool" where
  "is_digit c \<longleftrightarrow> c \<in> set ''0123456789''"

definition is_quote :: "char \<Rightarrow> bool" where
  "is_quote c \<longleftrightarrow> c = CHR 0x22 \<or> c = CHR 0x27"

text \<open>\<open>/^\d+\./.test(line)\<close>: a non-empty run of digits at the start, then a dot.\<close>

definition test_numbered :: "string \<Rightarrow> bool" where
  "test_numbered line \<longleftrightarrow>
     takeWhile is_digit line \<noteq> [] \<and>
     (case dropWhile is_digit line of [] \<Rightarrow> False | c # _ \<Rightarrow> c = CHR ''.'')"

text \<open>\<open>line.replace(/^\d+\.\s*/, '')\<close>.\<close>

definition replace_numbering :: "string \<Rightarrow> string" where
  "replace_numbering line =
     (if test_numbered line
      then dropWhile js_whitespace (tl (dropWhile is_digit line))
      else line)"

text \<open>\<open>.replace(/^["']/, '')\<close>.\<close>

fun replace_leading_quote :: "string \<Rightarrow> string" where
  "replace_leading_quote [] = []"
| "replace_leading_quote (c # cs) = (if is_quote c then cs else c # cs)"

text \<open>
  \<open>.replace(/["'],?$/, '')\<close>, on the reversed string: the leftmost match is a quote
  followed by a final comma, and otherwise a final quote.
\<close>

fun replace_trailing_quote_rev :: "string \<Rightarrow> string" where
  "replace_trailing_quote_rev [] = []"
| "replace_trailing_quote_rev [c] = (if is_quote c then [] else [c])"
| "replace_trailing_quote_rev (c # q # r) =
     (if c = CHR '','' \<and> is_quote q then r
      else if is_quote c then q # r
      else c # q # r)"

definition replace_trailing_quote :: "string \<Rightarrow> string" where
  "replace_trailing_quote s = rev (replace_trailing_quote_rev (rev s))"

text \<open>\<open>.replace(/\\"/g, '"')\<close> and \<open>.replace(/\\'/g, "'")\<close>: a backslash before \<open>q\<close> is dropped.\<close>

fun unescape :: "char \<Rightarrow> string \<Rightarrow> string" where
  "unescape q (a # b # cs) =
     (if a = CHR 0x5C \<and> b = q then q # unescape q cs else a # unescape q (b # cs))"
| "unescape q cs = cs"

section \<open>UIOverlay: question history, hover gate and conversation\<close>

record question =
  qtext :: string
  startTime :: real
  endTime :: real

record question_group =
  questions :: "question list"
  timestamp :: real

text \<open>
  The object \<open>{questions, timestamp}\<close> parked in \<open>pendingQuestions\<close>; the array may be
  absent (\<open>null\<close> or \<open>undefined\<close>).
\<close>

record pending_update =
  pending_list :: "question list option"
  pending_timestamp :: real

datatype role = User | Assistant

record message =
  role :: role
  content :: string

text \<open>What the element \<open>yt-ai-questions-list\<close> shows, and what the answer block shows.\<close>

datatype list_view =
    Cleared
  | NoQuestions
  | ErrorView string
  | QuestionsView "question list"

datatype answer_view = Loading | Shown string

record ui_overlay =
  aiEnabled :: bool
  isHovering :: bool
  pendingQuestions :: "pending_update option"
  chatbox :: bool
  chatboxContent :: "answer_view option"
  isChatboxVisible :: bool
  isStreaming :: bool
  questionHistory :: "question_group list"
  currentQuestionGroupIndex :: int
  conversationHistory :: "message list"
  conversationContext :: "(real option \<times> real option) option"
  onFollowUpQuestion :: bool
  questionsList :: "list_view option"
  followUpRequests :: "(string \<times> real option \<times> real option) list"

text \<open>
  \<open>onFollowUpQuestion\<close> says whether a handler is installed; \<open>followUpRequests\<close> logs
  the arguments of each call made to it. \<open>questionsList\<close> is \<open>None\<close> when the list
  element is not in the document.
\<close>

definition constructor_ui :: ui_overlay where
  "constructor_ui = \<lparr>
     aiEnabled = True, isHovering = False, pendingQuestions = None,
     chatbox = False, chatboxContent = None, isChatboxVisible = False,
     isStreaming = False, questionHistory = [], currentQuestionGroupIndex = - 1,
     conversationHistory = [], conversationContext = None,
     onFollowUpQuestion = False, questionsList = None, followUpRequests = [] \<rparr>"

text \<open>
  \<open>renderCurrentQuestions\<close>: returns at once without the list element; otherwise clears
  it, shows the placeholder when there is no group or the cursor is negative, and else
  reads the group at the cursor (a read past the end yields \<open>undefined\<close>, whose
  \<open>.questions\<close> throws) and shows its first three questions.
\<close>

definition renderCurrentQuestions :: "ui_overlay \<Rightarrow> ui_overlay outcome" where
  "renderCurrentQuestions u =
     (case questionsList u of
        None \<Rightarrow> (u, None)
      | Some _ \<Rightarrow>
          if questionHistory u = [] \<or> currentQuestionGroupIndex u < 0
          then (u\<lparr>questionsList := Some NoQuestions\<rparr>, None)
          else if nat (currentQuestionGroupIndex u) < length (questionHistory u)
          then (u\<lparr>questionsList := Some (QuestionsView
                  (take 3 (questions (questionHistory u ! nat (currentQuestionGroupIndex u)))))\<rparr>,
                None)
          else (u\<lparr>questionsList := Some Cleared\<rparr>, Some TypeError))"

definition updateQuestions ::
  "question list option \<Rightarrow> real \<Rightarrow> ui_overlay \<Rightarrow> ui_overlay outcome" where
  "updateQuestions qs ts u =
     (if isHovering u
      then (u\<lparr>pendingQuestions := Some \<lparr>pending_list = qs, pending_timestamp = ts\<rparr>\<rparr>, None)
      else renderCurrentQuestions
        (case qs of
           Some (q # rest) \<Rightarrow>
             u\<lparr>questionHistory := questionHistory u @ [\<lparr>questions = q # rest, timestamp = ts\<rparr>],
               currentQuestionGroupIndex :=
                 int (length (questionHistory u @ [\<lparr>questions = q # rest, timestamp = ts\<rparr>])) - 1\<rparr>
         | _ \<Rightarrow> u))"

definition navigateBackward :: "ui_overlay \<Rightarrow> ui_overlay outcome" where
  "navigateBackward u =
     (if currentQuestionGroupIndex u > 0
      then renderCurrentQuestions (u\<lparr>currentQuestionGroupIndex := currentQuestionGroupIndex u - 1\<rparr>)
      else (u, None))"

definition navigateForward :: "ui_overlay \<Rightarrow> ui_overlay outcome" where
  "navigateForward u =
     (if currentQuestionGroupIndex u < int (length (questionHistory u)) - 1
      then renderCurrentQuestions (u\<lparr>currentQuestionGroupIndex := currentQuestionGroupIndex u + 1\<rparr>)
      else (u, None))"



subsection \<open>Answer view and conversation\<close>

definition destroyChatbox :: "ui_overlay \<Rightarrow> ui_overlay" where
  "destroyChatbox u =
     u\<lparr>chatbox := False, chatboxContent := None, isChatboxVisible := False,
       isStreaming := False, conversationHistory := [], conversationContext := None\<rparr>"

text \<open>
  \<open>showChatbox(question, startTime, endTime)\<close>; a caller that passes the question alone
  leaves both times \<open>undefined\<close> (\<open>None\<close>).
\<close>

definition showChatbox :: "string \<Rightarrow> real option \<Rightarrow> real option \<Rightarrow> ui_overlay \<Rightarrow> ui_overlay" where
  "showChatbox question start_arg end_arg u =
     (destroyChatbox u)
       \<lparr>conversationHistory := [\<lparr>role = User, content = question\<rparr>],
        conversationContext := Some (start_arg, end_arg),
        chatbox := True, chatboxContent := Some Loading,
        isChatboxVisible := True, isStreaming := True\<rparr>"

definition updateChatboxContent :: "string \<Rightarrow> ui_overlay \<Rightarrow> ui_overlay" where
  "updateChatboxContent txt u =
     (if \<not> chatbox u \<or> chatboxContent u = None then u
      else if \<not> isChatboxVisible u then u
      else u\<lparr>chatboxContent := Some (Shown txt)\<rparr>)"

text \<open>\<open>finishStreaming(fullAnswer)\<close>; an omitted or empty argument is falsy.\<close>

definition finishStreaming :: "string option \<Rightarrow> ui_overlay \<Rightarrow> ui_overlay" where
  "finishStreaming fullAnswer u =
     (let u1 = u\<lparr>isStreaming := False\<rparr>
      in case fullAnswer of
           None \<Rightarrow> u1
         | Some answer \<Rightarrow>
             if answer = [] then u1
             else u1\<lparr>conversationHistory :=
                      conversationHistory u1 @ [\<lparr>role = Assistant, content = answer\<rparr>]\<rparr>)"

definition closeChatbox :: "ui_overlay \<Rightarrow> ui_overlay" where
  "closeChatbox u =
     (if \<not> chatbox u then u
      else u\<lparr>chatbox := False, chatboxContent := None, isChatboxVisible := False,
             conversationHistory := [], conversationContext := None\<rparr>)"



definition showError :: "string \<Rightarrow> ui_overlay \<Rightarrow> ui_overlay" where
  "showError msg u =
     (case questionsList u of
        None \<Rightarrow> u
      | Some _ \<Rightarrow> u\<lparr>questionsList := Some (ErrorView msg)\<rparr>)"





section \<open>External collaborators\<close>

text \<open>
  The values \<open>JSON.parse\<close> can return. The prompts sent to the language model are
  template strings; a prompt is represented by the values that fill its template.
\<close>

datatype json =
    JNull
  | JBool bool
  | JNum real
  | JStr string
  | JArr "json list"
  | JObj "(string \<times> json) list"

datatype prompt_text =
    QuestionsPrompt string string bool
  | AnswerPrompt string string bool

text \<open>
  The collaborators are parameters of the model. A call that rejects or throws returns
  \<open>Inl\<close>. A stream delivers its chunks in order and then ends, normally or by throwing.
  \<open>getTranscriptChunk\<close> may return no string at all (\<open>None\<close>).
\<close>

record collaborators =
  getTranscriptChunk :: "real \<Rightarrow> real \<Rightarrow> js_error + string option"
  summarize :: "string \<Rightarrow> js_error + string"
  session_prompt :: "prompt_text \<Rightarrow> js_error + string"
  session_promptStreaming :: "prompt_text \<Rightarrow> js_error + (string list \<times> js_error option)"
  session_append :: "js_error option"
  JSON_parse :: "string \<Rightarrow> json option"

section \<open>PromptClient\<close>

definition cleanQuestionString :: "string \<Rightarrow> string" where
  "cleanQuestionString question =
     js_trim (unescape (CHR 0x27) (unescape (CHR 0x22)
       (replace_trailing_quote (replace_leading_quote (js_trim question)))))"

text \<open>
  The \<open>try\<close> block of \<open>parseQuestions\<close>: \<open>None\<close> when control reaches the fallback,
  because \<open>JSON.parse\<close> threw, because \<open>parsed.questions\<close> is not an array (or reading
  it from \<open>null\<close> threw), or because cleaning an element that is not a string threw.
\<close>

fun json_string :: "json \<Rightarrow> string option" where
  "json_string (JStr s) = Some s"
| "json_string _ = None"

definition parse_structured :: "(string \<Rightarrow> json option) \<Rightarrow> string \<Rightarrow> string list option" where
  "parse_structured parse response =
     (case parse response of
        Some (JObj members) \<Rightarrow>
          (case map_of members ''questions'' of
             Some (JArr items) \<Rightarrow>
               (if list_all (\<lambda>q. json_string q \<noteq> None) items
                then Some (map cleanQuestionString (List.map_filter json_string items))
                else None)
           | _ \<Rightarrow> None)
      | _ \<Rightarrow> None)"

definition extract_from_text :: "string \<Rightarrow> string list" where
  "extract_from_text response =
     (let lines = filter (\<lambda>line. length (js_trim line) > 0) (split_lines response);
          questions =
            filter (\<lambda>q. length q > 0)
              (map (\<lambda>line. cleanQuestionString (js_trim (replace_numbering line)))
                 (filter (\<lambda>line. CHR ''?'' \<in> set line \<or> test_numbered line) lines))
      in take 3 questions)"

definition parseQuestions :: "(string \<Rightarrow> json option) \<Rightarrow> string \<Rightarrow> string list" where
  "parseQuestions parse response =
     (case parse_structured parse response of
        Some qs \<Rightarrow> qs
      | None \<Rightarrow> extract_from_text response)"

record prompt_client =
  pc_initialized :: bool
  session :: bool
  promptCalls :: "prompt_text list"

text \<open>
  What arrives in the \<open>videoFrame\<close> parameter: nothing, an image, or some other value
  (every value but the first is truthy).
\<close>

datatype frame_arg = NoFrame | ImageBlob | OtherValue

definition apology :: string where
  "apology = ''Sorry, I encountered an error generating the answer.''"

definition generateQuestions ::
  "collaborators \<Rightarrow> string \<Rightarrow> string \<Rightarrow> frame_arg \<Rightarrow> prompt_client
     \<Rightarrow> string list \<times> prompt_client" where
  "generateQuestions env transcriptText videoSummary videoFrame pc =
     (if \<not> pc_initialized pc \<or> \<not> session pc then ([], pc)
      else if videoFrame \<noteq> NoFrame \<and> session_append env \<noteq> None then ([], pc)
      else
        (let textPrompt = QuestionsPrompt transcriptText videoSummary (videoFrame \<noteq> NoFrame);
             pc1 = pc\<lparr>promptCalls := promptCalls pc @ [textPrompt]\<rparr>
         in case session_prompt env textPrompt of
              Inl e \<Rightarrow> ([], pc1)
            | Inr response \<Rightarrow> (parseQuestions (JSON_parse env) response, pc1)))"

text \<open>
  The loop \<open>for await (const chunk of stream)\<close>: \<open>fullAnswer\<close> is overwritten by each
  chunk, and the callback, when there is one, receives the chunk. The callback acts on
  the caller's state \<open>'s\<close>.
\<close>

fun for_await_chunks ::
  "(string \<Rightarrow> 's \<Rightarrow> 's) option \<Rightarrow> string list \<Rightarrow> string \<times> 's \<Rightarrow> string \<times> 's" where
  "for_await_chunks onChunk [] acc = acc"
| "for_await_chunks onChunk (chunk # rest) (fullAnswer, st) =
     for_await_chunks onChunk rest
       (chunk, case onChunk of None \<Rightarrow> st | Some f \<Rightarrow> f chunk st)"

text \<open>\<open>generateAnswer(question, videoSummary, videoFrame, onChunk)\<close> of \<open>src/ai/promptClient.js\<close>.\<close>

definition generateAnswer ::
  "collaborators \<Rightarrow> string \<Rightarrow> string \<Rightarrow> frame_arg \<Rightarrow> (string \<Rightarrow> 's \<Rightarrow> 's) option
     \<Rightarrow> 's \<Rightarrow> prompt_client \<Rightarrow> string \<times> 's \<times> prompt_client" where
  "generateAnswer env question videoSummary videoFrame onChunk st pc =
     (if \<not> pc_initialized pc \<or> \<not> session pc then ([], st, pc)
      else if videoFrame \<noteq> NoFrame \<and> session_append env \<noteq> None then (apology, st, pc)
      else
        (let prompt = AnswerPrompt question videoSummary (videoFrame \<noteq> NoFrame);
             pc1 = pc\<lparr>promptCalls := promptCalls pc @ [prompt]\<rparr>
         in case session_promptStreaming env prompt of
              Inl e \<Rightarrow> (apology, st, pc1)
            | Inr (chunks, failure) \<Rightarrow>
                (case for_await_chunks onChunk chunks ([], st) of
                   (fullAnswer, st1) \<Rightarrow>
                     (case failure of
                        None \<Rightarrow> (fullAnswer, st1, pc1)
                      | Some e \<Rightarrow> (apology, st1, pc1)))))"

text \<open>
  The three-parameter \<open>generateAnswer(question, videoSummary, onChunk)\<close> of the
  PromptClient in \<open>src/unnamed/part_001\<close>, which has no frame parameter.
\<close>

definition generateAnswer_part_001 ::
  "collaborators \<Rightarrow> string \<Rightarrow> string \<Rightarrow> (string \<Rightarrow> 's \<Rightarrow> 's) option
     \<Rightarrow> 's \<Rightarrow> prompt_client \<Rightarrow> string \<times> 's \<times> prompt_client" where
  "generateAnswer_part_001 env question videoSummary onChunk st pc =
     (if \<not> pc_initialized pc \<or> \<not> session pc then ([], st, pc)
      else
        (let prompt = AnswerPrompt question videoSummary False;
             pc1 = pc\<lparr>promptCalls := promptCalls pc @ [prompt]\<rparr>
         in case session_promptStreaming env prompt of
              Inl e \<Rightarrow> (apology, st, pc1)
            | Inr (chunks, failure) \<Rightarrow>
                (case for_await_chunks onChunk chunks ([], st) of
                   (fullAnswer, st1) \<Rightarrow>
                     (case failure of
                        None \<Rightarrow> (fullAnswer, st1, pc1)
                      | Some e \<Rightarrow> (apology, st1, pc1)))))"

section \<open>SummarizerClient\<close>

record summarizer_client =
  sc_initialized :: bool
  summarizer :: bool
  currentSummary :: "string option"
  currentSummaryTimeRange :: "real \<times> real"
  summarizeCalls :: "string list"

text \<open>
  \<open>getSummaryForTime(transcriptText, windowStart, windowEnd)\<close>. The cached summary is
  returned when it is a non-empty string and \<open>halfWindow\<close> is at most the end of the
  cached range. Otherwise a blank transcript returns the empty string, and a non-blank
  one is summarised: a result fills the single slot, a throw returns the empty string.
  The window bounds are exact reals here: the rounding of the source's double arithmetic
  and a window of \<open>NaN\<close> bounds (times that were never passed) are outside the model.
\<close>

definition getSummaryForTime ::
  "collaborators \<Rightarrow> string option \<Rightarrow> real \<Rightarrow> real \<Rightarrow> summarizer_client
     \<Rightarrow> string \<times> summarizer_client" where
  "getSummaryForTime env transcriptText windowStart windowEnd sc =
     (if \<not> sc_initialized sc \<or> \<not> summarizer sc then ([], sc)
      else
        (let halfWindow = (windowEnd - windowStart) / 2;
             cached = (case currentSummary sc of
                         None \<Rightarrow> None
                       | Some summary \<Rightarrow>
                           if summary \<noteq> [] \<and> halfWindow \<le> snd (currentSummaryTimeRange sc)
                           then Some summary else None)
         in case cached of
              Some summary \<Rightarrow> (summary, sc)
            | None \<Rightarrow>
                (case transcriptText of
                   None \<Rightarrow> ([], sc)
                 | Some txt \<Rightarrow>
                     if length (js_trim txt) = 0 then ([], sc)
                     else
                       (let sc1 = sc\<lparr>summarizeCalls := summarizeCalls sc @ [txt]\<rparr>
                        in case summarize env txt of
                             Inl e \<Rightarrow> ([], sc1)
                           | Inr summary \<Rightarrow>
                               (summary,
                                sc1\<lparr>currentSummary := Some summary,
                                    currentSummaryTimeRange := (windowStart, windowEnd)\<rparr>)))))"

definition clearCache :: "summarizer_client \<Rightarrow> summarizer_client" where
  "clearCache sc = sc\<lparr>currentSummary := None, currentSummaryTimeRange := (- 1, - 1)\<rparr>"

definition isTimeInCurrentWindow :: "real \<Rightarrow> summarizer_client \<Rightarrow> bool" where
  "isTimeInCurrentWindow time sc \<longleftrightarrow>
     currentSummary sc \<noteq> None \<and>
     time \<ge> fst (currentSummaryTimeRange sc) \<and> time \<le> snd (currentSummaryTimeRange sc)"

section \<open>YouTubeAIAssistant: the content script\<close>

record video_element =
  currentTime :: real
  paused :: bool

text \<open>
  \<open>initialize\<close> creates the three components together, before it sets
  \<open>isInitialized\<close>; they are fields of the record, and the source's tests for a missing
  component are the tests on \<open>isInitialized\<close> and on the component's own flag.
\<close>

record assistant =
  promptClient :: prompt_client
  summarizerClient :: summarizer_client
  uiOverlay :: ui_overlay
  isInitialized :: bool
  isRunning :: bool
  lastTriggerTime :: int
  videoElement :: "video_element option"
  questionGenerationInterval :: int
  transcriptBufferAhead :: real
  summaryBuffer :: real

text \<open>
  \<open>handleVideoTimeUpdate\<close>: the second component says whether \<open>updateQuestions\<close> was
  started. \<open>currentTime\<close> is positive where the remainder is taken, so \<open>% === 0\<close> is
  divisibility.
\<close>

definition handleVideoTimeUpdate :: "assistant \<Rightarrow> assistant \<times> bool" where
  "handleVideoTimeUpdate a =
     (case videoElement a of
        None \<Rightarrow> (a, False)
      | Some video \<Rightarrow>
          if \<not> isRunning a \<or> paused video then (a, False)
          else if \<not> aiEnabled (uiOverlay a) then (a, False)
          else
            (let now = \<lfloor>currentTime video\<rfloor>
             in if now > 0 \<and> now mod questionGenerationInterval a = 0 \<and> now \<noteq> lastTriggerTime a
                then (a\<lparr>lastTriggerTime := now\<rparr>, True)
                else (a, False)))"

text \<open>The video reports position \<open>t\<close> and the \<open>timeupdate\<close> listener runs.\<close>

definition timeupdate :: "real \<Rightarrow> assistant \<Rightarrow> assistant \<times> bool" where
  "timeupdate t a =
     handleVideoTimeUpdate
       (a\<lparr>videoElement := map_option (\<lambda>video. video\<lparr>currentTime := t\<rparr>) (videoElement a)\<rparr>)"

fun timeupdates :: "real list \<Rightarrow> assistant \<Rightarrow> bool list" where
  "timeupdates [] a = []"
| "timeupdates (t # ts) a = snd (timeupdate t a) # timeupdates ts (fst (timeupdate t a))"

text \<open>The \<open>catch\<close> block of \<open>updateQuestions\<close>.\<close>

definition cycle_failed :: "assistant \<Rightarrow> assistant" where
  "cycle_failed a = a\<lparr>uiOverlay := showError ''Failed to generate questions'' (uiOverlay a)\<rparr>"

text \<open>
  \<open>updateQuestions\<close> of the content script, one generation cycle, with its awaited calls
  run in order.
\<close>

definition assistant_updateQuestions :: "collaborators \<Rightarrow> assistant \<Rightarrow> assistant" where
  "assistant_updateQuestions env a =
     (if \<not> isInitialized a then a
      else case videoElement a of
        None \<Rightarrow> cycle_failed a
      | Some video \<Rightarrow>
          (let now = currentTime video
           in case getTranscriptChunk env now (now + transcriptBufferAhead a) of
                Inl e \<Rightarrow> cycle_failed a
              | Inr None \<Rightarrow> a
              | Inr (Some transcript) \<Rightarrow>
                  if length (js_trim transcript) = 0 then a
                  else
                    (let summarised =
                           (if sc_initialized (summarizerClient a)
                            then (case getTranscriptChunk env (now - summaryBuffer a)
                                         (now + summaryBuffer a) of
                                    Inl e \<Rightarrow> Inl e
                                  | Inr txt \<Rightarrow>
                                      Inr (getSummaryForTime env txt (now - summaryBuffer a)
                                             (now + summaryBuffer a) (summarizerClient a)))
                            else Inr ([], summarizerClient a))
                     in case summarised of
                          Inl e \<Rightarrow> cycle_failed a
                        | Inr (videoSummary, sc1) \<Rightarrow>
                            (case generateQuestions env transcript videoSummary NoFrame
                                    (promptClient a) of
                               (generated, pc1) \<Rightarrow>
                                 (let questionData =
                                        map (\<lambda>q. \<lparr>qtext = q, startTime = now,
                                                  endTime = now + transcriptBufferAhead a\<rparr>)
                                          generated;
                                      a1 = a\<lparr>summarizerClient := sc1, promptClient := pc1\<rparr>
                                  in case updateQuestions (Some questionData) now (uiOverlay a1) of
                                       (u1, None) \<Rightarrow> a1\<lparr>uiOverlay := u1\<rparr>
                                     | (u1, Some e) \<Rightarrow> cycle_failed (a1\<lparr>uiOverlay := u1\<rparr>))))))"

text \<open>
  The callback that \<open>handleQuestionClick\<close> hands to \<open>generateAnswer\<close>; its state is the
  local \<open>fullAnswer\<close> and the overlay.
\<close>

definition answer_chunk :: "string \<Rightarrow> string \<times> ui_overlay \<Rightarrow> string \<times> ui_overlay" where
  "answer_chunk chunk st =
     (case st of (fullAnswer, u) \<Rightarrow> (fullAnswer @ chunk, updateChatboxContent (fullAnswer @ chunk) u))"

text \<open>
  The call \<open>generateAnswer(question, videoSummary, callback)\<close> binds its arguments by
  position. In \<open>src/ai/promptClient.js\<close> the third parameter is \<open>videoFrame\<close> and
  \<open>onChunk\<close> stays \<open>undefined\<close>; in \<open>src/unnamed/part_001\<close> the third parameter is
  \<open>onChunk\<close>.
\<close>

type_synonym answer_call =
  "collaborators \<Rightarrow> string \<Rightarrow> string \<Rightarrow> (string \<Rightarrow> string \<times> ui_overlay \<Rightarrow> string \<times> ui_overlay)
     \<Rightarrow> string \<times> ui_overlay \<Rightarrow> prompt_client \<Rightarrow> string \<times> (string \<times> ui_overlay) \<times> prompt_client"

definition call_promptClient :: answer_call where
  "call_promptClient env question videoSummary callback st pc =
     generateAnswer env question videoSummary OtherValue None st pc"

definition call_part_001 :: answer_call where
  "call_part_001 env question videoSummary callback st pc =
     generateAnswer_part_001 env question videoSummary (Some callback) st pc"

text \<open>The \<open>catch\<close> block of \<open>handleQuestionClick\<close>.\<close>

definition answer_failed :: "assistant \<Rightarrow> assistant" where
  "answer_failed a =
     a\<lparr>uiOverlay := finishStreaming None (updateChatboxContent apology (uiOverlay a))\<rparr>"

text \<open>
  \<open>handleQuestionClick(question, index, startTime, endTime)\<close> of the content script.
  It opens the answer view with the question alone, reads the summary and the transcript
  of the question's window (logging the transcript throws when there is none),
  streams the answer through \<open>answer_chunk\<close> and calls \<open>finishStreaming()\<close> with no
  argument, on success and in the \<open>catch\<close> block alike.
\<close>

definition assistant_handleQuestionClick ::
  "answer_call \<Rightarrow> collaborators \<Rightarrow> string \<Rightarrow> int \<Rightarrow> real \<Rightarrow> real \<Rightarrow> assistant \<Rightarrow> assistant" where
  "assistant_handleQuestionClick call env question index start_arg end_arg a =
     (if \<not> isInitialized a then a
      else
        (let a1 = a\<lparr>uiOverlay := showChatbox question None None (uiOverlay a)\<rparr>;
             summarised =
               (if sc_initialized (summarizerClient a1)
                then (case getTranscriptChunk env (start_arg - summaryBuffer a1)
                             (end_arg + summaryBuffer a1) of
                        Inl e \<Rightarrow> Inl e
                      | Inr txt \<Rightarrow>
                          Inr (getSummaryForTime env txt (start_arg - summaryBuffer a1)
                                 (end_arg + summaryBuffer a1) (summarizerClient a1)))
                else Inr ([], summarizerClient a1))
         in case summarised of
              Inl e \<Rightarrow> answer_failed a1
            | Inr (videoSummary, sc1) \<Rightarrow>
                (let a2 = a1\<lparr>summarizerClient := sc1\<rparr>
                 in case getTranscriptChunk env start_arg end_arg of
                      Inl e \<Rightarrow> answer_failed a2
                    | Inr None \<Rightarrow> answer_failed a2
                    | Inr (Some transcriptContext) \<Rightarrow>
                        (case call env question videoSummary answer_chunk
                                ([], uiOverlay a2) (promptClient a2) of
                           (answer, (fullAnswer, u1), pc1) \<Rightarrow>
                             a2\<lparr>promptClient := pc1, uiOverlay := finishStreaming None u1\<rparr>))))"

text \<open>The answer view is open: the answer block exists and is visible.\<close>

definition answer_view_open :: "ui_overlay \<Rightarrow> bool" where
  "answer_view_open u \<longleftrightarrow> chatbox u \<and> chatboxContent u \<noteq> None \<and> isChatboxVisible u"

text \<open>The scheduler is active: the loop runs, AI questions are on, the video plays.\<close>

definition scheduler_active :: "assistant \<Rightarrow> bool" where
  "scheduler_active a \<longleftrightarrow>
     isRunning a \<and> aiEnabled (uiOverlay a) \<and>
     (case videoElement a of None \<Rightarrow> False | Some video \<Rightarrow> \<not> paused video)"

definition constructor_assistant :: assistant where
  "constructor_assistant = \<lparr>
     promptClient = \<lparr>pc_initialized = False, session = False, promptCalls = []\<rparr>,
     summarizerClient = \<lparr>sc_initialized = False, summarizer = False, currentSummary = None,
       currentSummaryTimeRange = (- 1, - 1), summarizeCalls = []\<rparr>,
     uiOverlay = constructor_ui,
     isInitialized = False, isRunning = False, lastTriggerTime = 0, videoElement = None,
     questionGenerationInterval = 30, transcriptBufferAhead = 30, summaryBuffer = 150 \<rparr>"

section \<open>The fallback as specified\<close>

text \<open>
  The fallback in the words of the specification: scan the lines in order, skip the
  blank ones, keep a line with a question mark or a numbered-list marker at its start,
  strip the numbering prefix and the quoting artifacts, drop what became empty, and stop
  after three items.
\<close>

fun recover_questions :: "nat \<Rightarrow> string list \<Rightarrow> string list" where
  "recover_questions 0 lines = []"
| "recover_questions (Suc n) [] = []"
| "recover_questions (Suc n) (line # rest) =
     (if js_trim line = [] then recover_questions (Suc n) rest
      else if \<not> (CHR ''?'' \<in> set line \<or> test_numbered line) then recover_questions (Suc n) rest
      else if cleanQuestionString (js_trim (replace_numbering line)) = []
      then recover_questions (Suc n) rest
      else cleanQuestionString (js_trim (replace_numbering line)) # recover_questions n rest)"

section \<open>Concrete inputs\<close>

definition example_question :: question where
  "example_question = \<lparr>qtext = ''Why does it fall?'', startTime = 30, endTime = 60\<rparr>"


text \<open>An overlay in the document that already shows one group of questions.\<close>

definition example_overlay :: ui_overlay where
  "example_overlay =
     constructor_ui\<lparr>questionsList := Some NoQuestions,
       questionHistory := [\<lparr>questions = [example_question], timestamp = 30\<rparr>],
       currentQuestionGroupIndex := 0\<rparr>"


definition example_assistant :: assistant where
  "example_assistant =
     constructor_assistant\<lparr>
       promptClient := \<lparr>pc_initialized = True, session = True, promptCalls = []\<rparr>,
       uiOverlay := example_overlay,
       isInitialized := True, isRunning := True,
       videoElement := Some \<lparr>currentTime = 0, paused = False\<rparr>\<rparr>"

definition paused_assistant :: assistant where
  "paused_assistant = example_assistant\<lparr>videoElement := Some \<lparr>currentTime = 0, paused = True\<rparr>\<rparr>"

text \<open>
  Collaborators for a silent stretch of the video: the transcript of any window is white
  space only, and the language model's reply is not JSON.
\<close>

definition silent_env :: collaborators where
  "silent_env = \<lparr>
     getTranscriptChunk = (\<lambda>s e. Inr (Some [CHR 0x20, CHR 0x0A, CHR 0x20])),
     summarize = (\<lambda>txt. Inr ''a summary''),
     session_prompt = (\<lambda>p. Inr ''1. What is gravity?''),
     session_promptStreaming = (\<lambda>p. Inr ([''Hi'', ''Hi there'', ''Hi there!''], None)),
     session_append = None,
     JSON_parse = (\<lambda>s. None) \<rparr>"

definition example_response :: string where
  "example_response =
     ''Here are some:'' @ [CHR 0x0A] @
     ''1. '' @ [CHR 0x22] @ ''What is gravity?'' @ [CHR 0x22] @ '','' @ [CHR 0x0A] @
     ''   '' @ [CHR 0x0A] @
     ''2.'' @ [CHR 0x0A] @
     [CHR 0x27] @ ''Why do things fall?'' @ [CHR 0x27] @ [CHR 0x0A] @
     ''3. How fast?'' @ [CHR 0x0A] @
     ''4. When?''"

text \<open>
  Collaborators that summarise any text, and a summarizer before and after its first
  summary, made for the window from 0 to 300.
\<close>

definition summarizing_env :: collaborators where
  "summarizing_env = \<lparr>
     getTranscriptChunk = (\<lambda>s e. Inr (Some ''speaker discusses gravity'')),
     summarize = (\<lambda>txt. Inr (''summary of '' @ txt)),
     session_prompt = (\<lambda>p. Inr ''1. What is gravity?''),
     session_promptStreaming = (\<lambda>p. Inr ([''Hi'', ''Hi there'', ''Hi there!''], None)),
     session_append = None,
     JSON_parse = (\<lambda>s. None) \<rparr>"

definition ready_summarizer :: summarizer_client where
  "ready_summarizer = \<lparr>sc_initialized = True, summarizer = True, currentSummary = None,
     currentSummaryTimeRange = (- 1, - 1), summarizeCalls = []\<rparr>"

definition populated_summarizer :: summarizer_client where
  "populated_summarizer = \<lparr>sc_initialized = True, summarizer = True,
     currentSummary = Some ''summary of first part'',
     currentSummaryTimeRange = (0, 300), summarizeCalls = [''first part'']\<rparr>"

text \<open>
  Collaborators whose language model streams the given chunks and then ends as given;
  one whose model rejects the streaming request; one whose transcript source throws.
\<close>

definition streaming_env :: "string list \<Rightarrow> js_error option \<Rightarrow> collaborators" where
  "streaming_env chunks failure = \<lparr>
     getTranscriptChunk = (\<lambda>s e. Inr (Some ''speaker discusses gravity'')),
     summarize = (\<lambda>txt. Inr (''summary of '' @ txt)),
     session_prompt = (\<lambda>p. Inr ''1. What is gravity?''),
     session_promptStreaming = (\<lambda>p. Inr (chunks, failure)),
     session_append = None,
     JSON_parse = (\<lambda>s. None) \<rparr>"

definition rejecting_env :: collaborators where
  "rejecting_env = (streaming_env [] None)
     \<lparr>session_promptStreaming := (\<lambda>p. Inl CollaboratorError)\<rparr>"

definition no_transcript_env :: collaborators where
  "no_transcript_env = (streaming_env [] None)
     \<lparr>getTranscriptChunk := (\<lambda>s e. Inl CollaboratorError)\<rparr>"

section \<open>Question history log\<close>

lemma renderCurrentQuestions_frame:
  "questionHistory (fst (renderCurrentQuestions u)) = questionHistory u"
  "currentQuestionGroupIndex (fst (renderCurrentQuestions u)) = currentQuestionGroupIndex u"
  "pendingQuestions (fst (renderCurrentQuestions u)) = pendingQuestions u"
  "isHovering (fst (renderCurrentQuestions u)) = isHovering u"
  by (simp_all add: renderCurrentQuestions_def split: option.splits)

lemma renderCurrentQuestions_in_range:
  "0 \<le> currentQuestionGroupIndex u \<Longrightarrow>
   nat (currentQuestionGroupIndex u) < length (questionHistory u) \<Longrightarrow>
   snd (renderCurrentQuestions u) = None"
  by (auto simp add: renderCurrentQuestions_def split: option.splits)

text \<open>
  Claim C6. Navigating backward with the cursor at index 0 changes nothing, and so does
  navigating forward with the cursor at the last index. An update that delivers a
  non-empty group while the pointer is not over the panel appends that group, and
  whenever an update appends, the cursor is the new last index.
\<close>

theorem history_navigation_bounds:
  "(currentQuestionGroupIndex u = 0 \<longrightarrow> navigateBackward u = (u, None)) \<and>
   (currentQuestionGroupIndex u = int (length (questionHistory u)) - 1 \<longrightarrow>
      navigateForward u = (u, None)) \<and>
   (\<not> isHovering u \<longrightarrow>
      questionHistory (fst (updateQuestions (Some (q # qs)) ts u)) =
        questionHistory u @ [\<lparr>questions = q # qs, timestamp = ts\<rparr>] \<and>
      snd (updateQuestions (Some (q # qs)) ts u) = None) \<and>
   (questionHistory (fst (updateQuestions new ts u)) \<noteq> questionHistory u \<longrightarrow>
      currentQuestionGroupIndex (fst (updateQuestions new ts u)) =
        int (length (questionHistory (fst (updateQuestions new ts u)))) - 1)"
proof (intro conjI impI)
  assume "currentQuestionGroupIndex u = 0"
  then show "navigateBackward u = (u, None)" by (simp add: navigateBackward_def)
next
  assume "currentQuestionGroupIndex u = int (length (questionHistory u)) - 1"
  then show "navigateForward u = (u, None)" by (simp add: navigateForward_def)
next
  assume "\<not> isHovering u"
  then show "questionHistory (fst (updateQuestions (Some (q # qs)) ts u)) =
        questionHistory u @ [\<lparr>questions = q # qs, timestamp = ts\<rparr>]"
    by (simp add: updateQuestions_def renderCurrentQuestions_frame)
next
  assume "\<not> isHovering u"
  then show "snd (updateQuestions (Some (q # qs)) ts u) = None"
    by (simp add: updateQuestions_def renderCurrentQuestions_in_range)
next
  assume changed: "questionHistory (fst (updateQuestions new ts u)) \<noteq> questionHistory u"
  show "currentQuestionGroupIndex (fst (updateQuestions new ts u)) =
        int (length (questionHistory (fst (updateQuestions new ts u)))) - 1"
  proof (cases "isHovering u")
    case True
    with changed show ?thesis by (simp add: updateQuestions_def)
  next
    case False
    with changed show ?thesis
      by (cases new; cases "the new")
         (simp_all add: updateQuestions_def renderCurrentQuestions_frame)
  qed
qed

theorem history_navigation_bounds_witness:
  "currentQuestionGroupIndex example_overlay = 0 \<and>
   currentQuestionGroupIndex example_overlay = int (length (questionHistory example_overlay)) - 1 \<and>
   \<not> isHovering example_overlay \<and>
   navigateBackward example_overlay = (example_overlay, None) \<and>
   navigateForward example_overlay = (example_overlay, None) \<and>
   questionHistory (fst (updateQuestions (Some [example_question]) 60 example_overlay)) =
     [\<lparr>questions = [example_question], timestamp = 30\<rparr>,
      \<lparr>questions = [example_question], timestamp = 60\<rparr>] \<and>
   currentQuestionGroupIndex (fst (updateQuestions (Some [example_question]) 60 example_overlay)) = 1"
  using history_navigation_bounds [of example_overlay example_question "[]" 60 "Some [example_question]"]
  by (simp add: example_overlay_def constructor_ui_def)

text \<open>
  Claim C10. An update with an absent or empty list of questions, made while the pointer
  is not over the panel, leaves the history and the cursor as they were; and no update
  ever records an empty group.
\<close>

theorem empty_update_keeps_history:
  "(\<not> isHovering u \<and> (new = None \<or> new = Some []) \<longrightarrow>
      questionHistory (fst (updateQuestions new ts u)) = questionHistory u \<and>
      currentQuestionGroupIndex (fst (updateQuestions new ts u)) = currentQuestionGroupIndex u) \<and>
   ((\<forall>g \<in> set (questionHistory u). questions g \<noteq> []) \<longrightarrow>
      (\<forall>g \<in> set (questionHistory (fst (updateQuestions any ts u))). questions g \<noteq> []))"
proof (rule conjI; rule impI)
  assume "\<not> isHovering u \<and> (new = None \<or> new = Some [])"
  then show "questionHistory (fst (updateQuestions new ts u)) = questionHistory u \<and>
      currentQuestionGroupIndex (fst (updateQuestions new ts u)) = currentQuestionGroupIndex u"
    by (auto simp add: updateQuestions_def renderCurrentQuestions_frame)
next
  assume inv: "\<forall>g \<in> set (questionHistory u). questions g \<noteq> []"
  show "\<forall>g \<in> set (questionHistory (fst (updateQuestions any ts u))). questions g \<noteq> []"
  proof (cases "isHovering u")
    case True
    with inv show ?thesis by (simp add: updateQuestions_def)
  next
    case False
    with inv show ?thesis
      by (auto simp add: updateQuestions_def renderCurrentQuestions_frame
               split: option.splits list.splits)
  qed
qed

theorem empty_update_keeps_history_witness:
  "\<not> isHovering example_overlay \<and>
   questionHistory (fst (updateQuestions (Some []) 60 example_overlay)) =
     [\<lparr>questions = [example_question], timestamp = 30\<rparr>] \<and>
   currentQuestionGroupIndex (fst (updateQuestions (Some []) 60 example_overlay)) = 0 \<and>
   map questions
     (questionHistory (fst (updateQuestions (Some [example_question]) 60 example_overlay))) =
     [[example_question], [example_question]]"
  using empty_update_keeps_history [of example_overlay "Some []" 60 "Some [example_question]"]
  by (simp add: example_overlay_def constructor_ui_def updateQuestions_def
        renderCurrentQuestions_frame)

section \<open>Hover gate\<close>









section \<open>Conversation context\<close>










text \<open>
  The content script's own click handler reopens the answer view with the question
  alone, so a conversation it handles has no window, whatever window the overlay had
  stored for it.
\<close>

lemma click_reopens_without_window:
  "conversationContext
     (showChatbox ''Why does it fall?'' (Some 30) (Some 60) (uiOverlay example_assistant)) =
     Some (Some 30, Some 60) \<and>
   conversationContext (uiOverlay
     (assistant_handleQuestionClick call_part_001 (streaming_env [''Hi''] None)
        ''Why does it fall?'' 0 30 60
        (example_assistant\<lparr>uiOverlay :=
           showChatbox ''Why does it fall?'' (Some 30) (Some 60) (uiOverlay example_assistant)\<rparr>))) =
     Some (None, None)"
  by (simp add: assistant_handleQuestionClick_def call_part_001_def generateAnswer_part_001_def
        answer_chunk_def streaming_env_def example_assistant_def constructor_assistant_def
        showChatbox_def destroyChatbox_def finishStreaming_def updateChatboxContent_def
        example_overlay_def constructor_ui_def Let_def)



section \<open>Trigger scheduler\<close>

lemma timeupdate_active:
  assumes "scheduler_active a"
  shows "snd (timeupdate t a) \<longleftrightarrow>
           \<lfloor>t\<rfloor> > 0 \<and> \<lfloor>t\<rfloor> mod questionGenerationInterval a = 0 \<and> \<lfloor>t\<rfloor> \<noteq> lastTriggerTime a"
    and "lastTriggerTime (fst (timeupdate t a)) =
           (if snd (timeupdate t a) then \<lfloor>t\<rfloor> else lastTriggerTime a)"
    and "scheduler_active (fst (timeupdate t a))"
    and "questionGenerationInterval (fst (timeupdate t a)) = questionGenerationInterval a"
  using assms
  by (auto simp add: scheduler_active_def timeupdate_def handleVideoTimeUpdate_def Let_def
           split: option.splits)

lemma timeupdate_inactive:
  assumes "\<not> scheduler_active a"
  shows "\<not> snd (timeupdate t a)"
    and "lastTriggerTime (fst (timeupdate t a)) = lastTriggerTime a"
  using assms
  by (auto simp add: scheduler_active_def timeupdate_def handleVideoTimeUpdate_def Let_def
           split: option.splits)

lemma timeupdates_boundaries:
  assumes act: "scheduler_active a"
    and int: "questionGenerationInterval a = 30"
    and last: "lastTriggerTime a \<noteq> 30"
    and fl: "map floor ts = [29, 30, 30, 31, 60, 60]"
  shows "timeupdates ts a = [False, True, False, False, True, False]"
proof -
  from fl obtain t1 t2 t3 t4 t5 t6 where ts: "ts = [t1, t2, t3, t4, t5, t6]"
    and f: "\<lfloor>t1\<rfloor> = 29" "\<lfloor>t2\<rfloor> = 30" "\<lfloor>t3\<rfloor> = 30" "\<lfloor>t4\<rfloor> = 31" "\<lfloor>t5\<rfloor> = 60" "\<lfloor>t6\<rfloor> = 60"
    by (auto simp add: map_eq_Cons_conv)
  define a1 where "a1 = fst (timeupdate t1 a)"
  define a2 where "a2 = fst (timeupdate t2 a1)"
  define a3 where "a3 = fst (timeupdate t3 a2)"
  define a4 where "a4 = fst (timeupdate t4 a3)"
  define a5 where "a5 = fst (timeupdate t5 a4)"
  have s1: "\<not> snd (timeupdate t1 a)" "scheduler_active a1" "questionGenerationInterval a1 = 30"
    "lastTriggerTime a1 \<noteq> 30"
    using timeupdate_active [OF act, of t1] int last f by (simp_all add: a1_def)
  have s2: "snd (timeupdate t2 a1)" "scheduler_active a2" "questionGenerationInterval a2 = 30"
    "lastTriggerTime a2 = 30"
    using timeupdate_active [OF s1(2), of t2] s1 f by (simp_all add: a2_def)
  have s3: "\<not> snd (timeupdate t3 a2)" "scheduler_active a3" "questionGenerationInterval a3 = 30"
    "lastTriggerTime a3 = 30"
    using timeupdate_active [OF s2(2), of t3] s2 f by (simp_all add: a3_def)
  have s4: "\<not> snd (timeupdate t4 a3)" "scheduler_active a4" "questionGenerationInterval a4 = 30"
    "lastTriggerTime a4 = 30"
    using timeupdate_active [OF s3(2), of t4] s3 f by (simp_all add: a4_def)
  have s5: "snd (timeupdate t5 a4)" "scheduler_active a5" "questionGenerationInterval a5 = 30"
    "lastTriggerTime a5 = 60"
    using timeupdate_active [OF s4(2), of t5] s4 f by (simp_all add: a5_def)
  have s6: "\<not> snd (timeupdate t6 a5)"
    using timeupdate_active [OF s5(2), of t6] s5 f by simp
  show ?thesis
    using s1(1) s2(1) s3(1) s4(1) s5(1) s6
    by (simp add: ts a1_def [symmetric] a2_def [symmetric] a3_def [symmetric]
          a4_def [symmetric] a5_def [symmetric])
qed

text \<open>
  Claim C3, as stated, fails: a position update that meets the three conditions starts
  no cycle while the video is paused.
\<close>

theorem trigger_paused_counterexample:
  "questionGenerationInterval paused_assistant = 30 \<and>
   \<lfloor>30 :: real\<rfloor> > 0 \<and> \<lfloor>30 :: real\<rfloor> mod 30 = 0 \<and>
   \<lfloor>30 :: real\<rfloor> \<noteq> lastTriggerTime paused_assistant \<and>
   \<not> snd (timeupdate 30 paused_assistant)"
  by (simp add: paused_assistant_def example_assistant_def constructor_assistant_def
        timeupdate_def handleVideoTimeUpdate_def)

text \<open>
  Claim C3, amended. With the interval at 30 and the scheduler active, a position update
  starts a cycle exactly when \<open>\<lfloor>t\<rfloor>\<close> is positive, a multiple of 30 and different
  from \<open>lastTriggerTime\<close>, which the fire sets to \<open>\<lfloor>t\<rfloor>\<close>; while the scheduler is
  not active no update starts a cycle and \<open>lastTriggerTime\<close> stays. Position updates
  whose floors are 29, 30, 30, 31, 60, 60 start exactly two cycles, at 30 and at 60.
\<close>

theorem trigger_fires_when_active:
  assumes "questionGenerationInterval a = 30"
  shows "(scheduler_active a \<longrightarrow>
            (snd (timeupdate t a) \<longleftrightarrow>
               \<lfloor>t\<rfloor> > 0 \<and> \<lfloor>t\<rfloor> mod 30 = 0 \<and> \<lfloor>t\<rfloor> \<noteq> lastTriggerTime a) \<and>
            lastTriggerTime (fst (timeupdate t a)) =
              (if snd (timeupdate t a) then \<lfloor>t\<rfloor> else lastTriggerTime a)) \<and>
         (\<not> scheduler_active a \<longrightarrow>
            \<not> snd (timeupdate t a) \<and>
            lastTriggerTime (fst (timeupdate t a)) = lastTriggerTime a) \<and>
         (scheduler_active a \<and> lastTriggerTime a \<noteq> 30 \<and>
          map floor ts = [29, 30, 30, 31, 60, 60] \<longrightarrow>
            timeupdates ts a = [False, True, False, False, True, False])"
  using assms timeupdate_active(1,2) [of a t] timeupdate_inactive [of a t]
    timeupdates_boundaries [of a ts]
  by simp

theorem trigger_fires_when_active_witness:
  "questionGenerationInterval example_assistant = 30 \<and>
   scheduler_active example_assistant \<and>
   snd (timeupdate 30.2 example_assistant) \<and>
   lastTriggerTime (fst (timeupdate 30.2 example_assistant)) = 30 \<and>
   timeupdates [29.5, 30.1, 30.9, 31, 60, 60.4] example_assistant =
     [False, True, False, False, True, False] \<and>
   timeupdates [29.5, 30.1, 30.9, 31, 60, 60.4] paused_assistant =
     [False, False, False, False, False, False]"
  using trigger_fires_when_active [of example_assistant "30.2" "[29.5, 30.1, 30.9, 31, 60, 60.4]"]
  by (simp add: scheduler_active_def paused_assistant_def example_assistant_def
        constructor_assistant_def example_overlay_def constructor_ui_def
        timeupdate_def handleVideoTimeUpdate_def)

section \<open>Generation cycle\<close>

text \<open>
  A cycle that finds a transcript: at position 30, with the reply \<open>1. What is gravity?\<close>,
  it records one group stamped 30 whose question carries the window from 30 to 60.
\<close>

lemma cycle_produces_group:
  "assistant_updateQuestions summarizing_env
     (example_assistant\<lparr>videoElement := Some \<lparr>currentTime = 30, paused = False\<rparr>\<rparr>) =
   example_assistant\<lparr>
     videoElement := Some \<lparr>currentTime = 30, paused = False\<rparr>,
     promptClient := \<lparr>pc_initialized = True, session = True,
       promptCalls = [QuestionsPrompt ''speaker discusses gravity'' [] False]\<rparr>,
     uiOverlay := example_overlay\<lparr>
       questionHistory :=
         [\<lparr>questions = [example_question], timestamp = 30\<rparr>,
          \<lparr>questions = [\<lparr>qtext = ''What is gravity?'', startTime = 30, endTime = 60\<rparr>],
            timestamp = 30\<rparr>],
       currentQuestionGroupIndex := 1,
       questionsList :=
         Some (QuestionsView [\<lparr>qtext = ''What is gravity?'', startTime = 30, endTime = 60\<rparr>])\<rparr>\<rparr>"
  by (simp add: assistant_updateQuestions_def generateQuestions_def parseQuestions_def
        parse_structured_def extract_from_text_def updateQuestions_def
        renderCurrentQuestions_def summarizing_env_def example_assistant_def
        constructor_assistant_def example_overlay_def constructor_ui_def
        js_trim_def js_whitespace_def test_numbered_def is_digit_def replace_numbering_def
        cleanQuestionString_def replace_trailing_quote_def is_quote_def Let_def)

text \<open>
  Claim C7. When the transcript fetched for the window from the current time to the
  current time plus \<open>transcriptBufferAhead\<close> is absent, empty or white space only,
  the cycle returns with the assistant unchanged: the summarizer and the language model
  were not called, no group was recorded, and the list shows no error.
\<close>

theorem empty_transcript_aborts_cycle:
  assumes "videoElement a = Some video"
    and "getTranscriptChunk env (currentTime video) (currentTime video + transcriptBufferAhead a)
           = Inr fetched"
    and "case fetched of None \<Rightarrow> True | Some transcript \<Rightarrow> js_trim transcript = []"
  shows "assistant_updateQuestions env a = a"
  using assms
  by (simp add: assistant_updateQuestions_def Let_def split: option.splits)

theorem empty_transcript_aborts_cycle_witness:
  "isInitialized example_assistant \<and>
   videoElement example_assistant = Some \<lparr>currentTime = 0, paused = False\<rparr> \<and>
   getTranscriptChunk silent_env 0 30 = Inr (Some [CHR 0x20, CHR 0x0A, CHR 0x20]) \<and>
   js_trim [CHR 0x20, CHR 0x0A, CHR 0x20] = [] \<and>
   assistant_updateQuestions silent_env example_assistant = example_assistant"
  using empty_transcript_aborts_cycle [of example_assistant "\<lparr>currentTime = 0, paused = False\<rparr>"
          silent_env "Some [CHR 0x20, CHR 0x0A, CHR 0x20]"]
  by (simp add: example_assistant_def constructor_assistant_def silent_env_def js_trim_def
        js_whitespace_def)

section \<open>Recovering questions from malformed output\<close>

text \<open>
  What the helpers do to the shapes they are written for: a numbered-list marker is a
  non-empty run of digits and a dot at the very start of the line; the prefix removed is
  the marker and the white space after it; a quoted item, with or without a comma after
  the closing quote, loses its two quotes.
\<close>

lemma not_digit_dot: "\<not> is_digit (CHR ''.'')"
  by (simp add: is_digit_def)

lemma test_numbered_iff:
  "test_numbered line \<longleftrightarrow>
     (\<exists>ds rest. ds \<noteq> [] \<and> list_all is_digit ds \<and> line = ds @ CHR ''.'' # rest)"
proof
  assume t: "test_numbered line"
  then obtain rest where d: "dropWhile is_digit line = CHR ''.'' # rest"
    by (auto simp add: test_numbered_def split: list.splits)
  have "line = takeWhile is_digit line @ CHR ''.'' # rest"
    using takeWhile_dropWhile_id [of is_digit line] d by simp
  moreover have "list_all is_digit (takeWhile is_digit line)"
    by (simp add: list_all_iff) (meson set_takeWhileD)
  moreover have "takeWhile is_digit line \<noteq> []"
    using t by (simp add: test_numbered_def)
  ultimately show "\<exists>ds rest. ds \<noteq> [] \<and> list_all is_digit ds \<and> line = ds @ CHR ''.'' # rest"
    by blast
next
  assume "\<exists>ds rest. ds \<noteq> [] \<and> list_all is_digit ds \<and> line = ds @ CHR ''.'' # rest"
  then obtain ds rest where ds: "ds \<noteq> []" "list_all is_digit ds" and line: "line = ds @ CHR ''.'' # rest"
    by blast
  have tk: "takeWhile is_digit line = ds"
    using ds(2) line by (simp add: list_all_iff not_digit_dot)
  have dr: "dropWhile is_digit line = CHR ''.'' # rest"
    using ds(2) line by (simp add: list_all_iff not_digit_dot)
  show "test_numbered line"
    using ds(1) tk dr by (simp add: test_numbered_def)
qed

lemma replace_numbering_strips:
  assumes "ds \<noteq> []" and "list_all is_digit ds" and "list_all js_whitespace ws"
    and "case rest of [] \<Rightarrow> True | c # _ \<Rightarrow> \<not> js_whitespace c"
  shows "replace_numbering (ds @ CHR ''.'' # ws @ rest) = rest"
proof -
  have t: "test_numbered (ds @ CHR ''.'' # ws @ rest)"
    using assms(1,2) test_numbered_iff by blast
  have dr: "dropWhile is_digit (ds @ CHR ''.'' # ws @ rest) = CHR ''.'' # ws @ rest"
    using assms(2) by (simp add: list_all_iff not_digit_dot)
  have "dropWhile js_whitespace (ws @ rest) = rest"
    using assms(3,4) by (cases rest) (simp_all add: list_all_iff)
  with t dr show ?thesis by (simp add: replace_numbering_def)
qed

lemma replace_numbering_unnumbered: "\<not> test_numbered line \<Longrightarrow> replace_numbering line = line"
  by (simp add: replace_numbering_def)

lemma unescape_plain: "CHR 0x5C \<notin> set s \<Longrightarrow> unescape q s = s"
  by (induction q s rule: unescape.induct) auto

lemma js_trim_plain:
  assumes "s \<noteq> []" and "\<not> js_whitespace (hd s)" and "\<not> js_whitespace (last s)"
  shows "js_trim s = s"
proof -
  have 1: "dropWhile js_whitespace s = s"
    using assms(1,2) by (cases s) simp_all
  have 2: "dropWhile js_whitespace (rev s) = rev s"
    using assms(1,3) by (cases "rev s") (simp_all add: last_rev [symmetric])
  show ?thesis by (simp add: js_trim_def 1 2)
qed

lemma js_trim_empty: "js_trim [] = []"
  by (simp add: js_trim_def)

lemma not_whitespace_quote: "is_quote c \<Longrightarrow> \<not> js_whitespace c"
  by (auto simp add: is_quote_def js_whitespace_def)

lemma cleanQuestionString_quoted:
  assumes "is_quote q1" and "is_quote q2"
    and "body \<noteq> []" and "\<not> js_whitespace (hd body)" and "\<not> js_whitespace (last body)"
    and "CHR 0x5C \<notin> set body"
  shows "cleanQuestionString (q1 # body @ [q2]) = body"
    and "cleanQuestionString (q1 # body @ [q2, CHR '','']) = body"
proof -
  have t1: "js_trim (q1 # body @ [q2]) = q1 # body @ [q2]"
    using assms(1,2) by (intro js_trim_plain) (simp_all add: not_whitespace_quote)
  have comma: "\<not> js_whitespace (CHR '','')" "\<not> is_quote (CHR '','')"
    by (simp_all add: js_whitespace_def is_quote_def)
  have t2: "js_trim (q1 # body @ [q2, CHR '','']) = q1 # body @ [q2, CHR '','']"
    using assms(1) comma by (intro js_trim_plain) (simp_all add: not_whitespace_quote)
  have r1: "replace_trailing_quote (body @ [q2]) = body"
    using assms(2,3) comma
    by (cases "rev body") (auto simp add: replace_trailing_quote_def is_quote_def)
  have r2: "replace_trailing_quote (body @ [q2, CHR '','']) = body"
    using assms(2) by (simp add: replace_trailing_quote_def)
  have t3: "js_trim body = body"
    using assms(3,4,5) by (rule js_trim_plain)
  show "cleanQuestionString (q1 # body @ [q2]) = body"
    using assms(1,6) by (simp add: cleanQuestionString_def t1 r1 unescape_plain t3)
  show "cleanQuestionString (q1 # body @ [q2, CHR '','']) = body"
    using assms(1,6) by (simp add: cleanQuestionString_def t2 r2 unescape_plain t3)
qed

lemma take_filter_recover:
  "take n (filter (\<lambda>q. length q > 0)
     (map (\<lambda>line. cleanQuestionString (js_trim (replace_numbering line)))
        (filter (\<lambda>line. CHR ''?'' \<in> set line \<or> test_numbered line)
           (filter (\<lambda>line. length (js_trim line) > 0) lines)))) =
   recover_questions n lines"
proof (induction lines arbitrary: n)
  case Nil
  then show ?case by (cases n) simp_all
next
  case (Cons line rest)
  show ?case
  proof (cases n)
    case 0
    then show ?thesis by simp
  next
    case (Suc m)
    then show ?thesis using Cons.IH [of n] Cons.IH [of m] by simp
  qed
qed

lemma extract_from_text_recover:
  "extract_from_text response = recover_questions 3 (split_lines response)"
  unfolding extract_from_text_def Let_def by (rule take_filter_recover)

lemma recover_questions_length: "length (recover_questions n lines) \<le> n"
  by (induction n lines rule: recover_questions.induct) simp_all

lemma recover_questions_items:
  "q \<in> set (recover_questions n lines) \<Longrightarrow>
   q \<noteq> [] \<and>
   (\<exists>line \<in> set lines. js_trim line \<noteq> [] \<and> (CHR ''?'' \<in> set line \<or> test_numbered line) \<and>
      q = cleanQuestionString (js_trim (replace_numbering line)))"
  by (induction n lines rule: recover_questions.induct) (auto split: if_splits)

lemma parse_structured_throws: "parse response = None \<Longrightarrow> parse_structured parse response = None"
  by (simp add: parse_structured_def)

text \<open>
  Claim C9. When \<open>JSON.parse\<close> rejects the response, \<open>parseQuestions\<close> returns what the
  specified scan returns: at most three items, none empty, each the cleaned text of a
  non-blank line of the response that contains a question mark or starts with a
  numbered-list marker.
\<close>

theorem malformed_output_fallback:
  assumes "parse response = None"
  shows "parseQuestions parse response = recover_questions 3 (split_lines response) \<and>
         length (parseQuestions parse response) \<le> 3 \<and>
         (\<forall>q \<in> set (parseQuestions parse response).
            q \<noteq> [] \<and>
            (\<exists>line \<in> set (split_lines response).
               js_trim line \<noteq> [] \<and> (CHR ''?'' \<in> set line \<or> test_numbered line) \<and>
               q = cleanQuestionString (js_trim (replace_numbering line))))"
proof -
  have eq: "parseQuestions parse response = recover_questions 3 (split_lines response)"
    using assms
    by (simp add: parseQuestions_def parse_structured_throws extract_from_text_recover)
  show ?thesis
    unfolding eq
    using recover_questions_length [of 3 "split_lines response"]
      recover_questions_items [of _ 3 "split_lines response"]
    by blast
qed

lemma example_lines:
  "split_lines example_response =
     [''Here are some:'',
      ''1. '' @ [CHR 0x22] @ ''What is gravity?'' @ [CHR 0x22] @ '','',
      ''   '', ''2.'',
      [CHR 0x27] @ ''Why do things fall?'' @ [CHR 0x27],
      ''3. How fast?'', ''4. When?'']"
  by (simp add: example_response_def)

theorem malformed_output_fallback_witness:
  "JSON_parse silent_env example_response = None \<and>
   parseQuestions (JSON_parse silent_env) example_response =
     [''What is gravity?'', ''Why do things fall?'', ''How fast?'']"
  using malformed_output_fallback [of "JSON_parse silent_env" example_response]
  by (simp add: silent_env_def example_lines js_trim_def js_whitespace_def test_numbered_def
        is_digit_def replace_numbering_def cleanQuestionString_def replace_trailing_quote_def
        is_quote_def numeral_3_eq_3)

section \<open>Summary cache\<close>

text \<open>
  Claim C1 (the code departs from it). With a non-empty summary in the slot, a request
  is served from the slot exactly when half the length of its window is at most the end
  of the cached window, wherever the requested window lies; only otherwise is a
  non-blank transcript summarised and the slot replaced. The instance below is the
  failing input: the slot holds the summary of the window from 0 to 300, the request is
  for the window from 1000 to 1300, whose midpoint 1150 is past 300, and the cached
  summary is returned without a call to the summarizer.
\<close>

theorem summary_reuse_ignores_position:
  assumes "sc_initialized sc" and "summarizer sc"
    and "currentSummary sc = Some cached" and "cached \<noteq> []"
  shows "((windowEnd - windowStart) / 2 \<le> snd (currentSummaryTimeRange sc) \<longrightarrow>
           getSummaryForTime env transcriptText windowStart windowEnd sc = (cached, sc)) \<and>
        ((windowEnd - windowStart) / 2 > snd (currentSummaryTimeRange sc) \<and>
         transcriptText = Some txt \<and> js_trim txt \<noteq> [] \<and> summarize env txt = Inr summary \<longrightarrow>
           getSummaryForTime env transcriptText windowStart windowEnd sc =
             (summary, sc\<lparr>summarizeCalls := summarizeCalls sc @ [txt],
                          currentSummary := Some summary,
                          currentSummaryTimeRange := (windowStart, windowEnd)\<rparr>))"
  using assms by (auto simp add: getSummaryForTime_def Let_def)

theorem summary_reuse_ignores_position_witness:
  "sc_initialized populated_summarizer \<and> summarizer populated_summarizer \<and>
   currentSummary populated_summarizer = Some ''summary of first part'' \<and>
   (1300 - 1000) / 2 \<le> snd (currentSummaryTimeRange populated_summarizer) \<and>
   getSummaryForTime summarizing_env (Some ''first part'') 0 300 ready_summarizer =
     (''summary of first part'', populated_summarizer) \<and>
   (1000 + 1300) / 2 > snd (currentSummaryTimeRange populated_summarizer) \<and>
   getSummaryForTime summarizing_env (Some ''later part'') 1000 1300 populated_summarizer =
     (''summary of first part'', populated_summarizer) \<and>
   summarizeCalls populated_summarizer = [''first part'']"
  using summary_reuse_ignores_position [of populated_summarizer "''summary of first part''"
          1300 1000 summarizing_env "Some ''later part''" "''later part''" "''unused''"]
  by (simp add: getSummaryForTime_def populated_summarizer_def ready_summarizer_def
        summarizing_env_def js_trim_def js_whitespace_def)

section \<open>Streaming an answer\<close>

lemma updateChatboxContent_frame:
  "conversationHistory (updateChatboxContent txt u) = conversationHistory u"
  "isStreaming (updateChatboxContent txt u) = isStreaming u"
  "answer_view_open (updateChatboxContent txt u) = answer_view_open u"
  by (auto simp add: updateChatboxContent_def answer_view_open_def)

lemma updateChatboxContent_shown:
  "answer_view_open u \<Longrightarrow> chatboxContent (updateChatboxContent txt u) = Some (Shown txt)"
  by (simp add: updateChatboxContent_def answer_view_open_def)

lemma for_await_without_callback:
  "for_await_chunks None chunks (fullAnswer, st) = (last (fullAnswer # chunks), st)"
  by (induction chunks arbitrary: fullAnswer) simp_all

lemma answer_chunk_apply:
  "answer_chunk chunk (shown, u) = (shown @ chunk, updateChatboxContent (shown @ chunk) u)"
  by (simp add: answer_chunk_def)

lemma for_await_answer_chunk:
  "for_await_chunks (Some answer_chunk) chunks (fullAnswer, (shown, u)) = (answer, (shown', u'))
   \<Longrightarrow> shown' = shown @ concat chunks \<and>
       conversationHistory u' = conversationHistory u \<and>
       isStreaming u' = isStreaming u \<and>
       answer_view_open u' = answer_view_open u \<and>
       (chunks = [] \<longrightarrow> u' = u) \<and>
       (chunks \<noteq> [] \<and> answer_view_open u \<longrightarrow>
          chatboxContent u' = Some (Shown (shown @ concat chunks)))"
proof (induction chunks arbitrary: fullAnswer shown u)
  case Nil
  then show ?case by simp
next
  case (Cons chunk rest)
  let ?u1 = "updateChatboxContent (shown @ chunk) u"
  from Cons.prems
  have run: "for_await_chunks (Some answer_chunk) rest (chunk, (shown @ chunk, ?u1)) =
      (answer, (shown', u'))"
    by (simp add: answer_chunk_apply)
  note ih = Cons.IH [OF run]
  show ?case
  proof (cases "rest = []")
    case True
    with ih show ?thesis
      by (simp add: updateChatboxContent_frame updateChatboxContent_shown)
  next
    case False
    with ih show ?thesis
      by (simp add: updateChatboxContent_frame)
  qed
qed

lemma showChatbox_view:
  "answer_view_open (showChatbox question s e u)"
  "chatboxContent (showChatbox question s e u) = Some Loading"
  "conversationHistory (showChatbox question s e u) = [\<lparr>role = User, content = question\<rparr>]"
  by (simp_all add: showChatbox_def destroyChatbox_def answer_view_open_def)

lemma finishStreaming_None:
  "conversationHistory (finishStreaming None u) = conversationHistory u"
  "\<not> isStreaming (finishStreaming None u)"
  "chatboxContent (finishStreaming None u) = chatboxContent u"
  by (simp_all add: finishStreaming_def)

lemma call_part_001_frame:
  assumes "call_part_001 env question videoSummary answer_chunk ([], u) pc = (answer, (shown, u'), pc')"
  shows "conversationHistory u' = conversationHistory u"
    and "answer_view_open u' = answer_view_open u"
proof -
  have "conversationHistory u' = conversationHistory u \<and> answer_view_open u' = answer_view_open u"
  proof (cases "\<not> pc_initialized pc \<or> \<not> session pc")
    case True
    with assms show ?thesis by (auto simp add: call_part_001_def generateAnswer_part_001_def)
  next
    case ready: False
    show ?thesis
    proof (cases "session_promptStreaming env (AnswerPrompt question videoSummary False)")
      case (Inl e)
      with ready assms show ?thesis
        by (auto simp add: call_part_001_def generateAnswer_part_001_def Let_def)
    next
      case (Inr stream)
      obtain chunks failure where stream: "stream = (chunks, failure)" by (cases stream)
      obtain fa sh ux where loop:
        "for_await_chunks (Some answer_chunk) chunks ([], ([], u)) = (fa, (sh, ux))"
        by (metis prod.exhaust)
      have "ux = u'"
        using ready assms Inr stream loop
        by (auto simp add: call_part_001_def generateAnswer_part_001_def Let_def
                 split: option.splits)
      with for_await_answer_chunk [OF loop] show ?thesis by simp
    qed
  qed
  then show "conversationHistory u' = conversationHistory u"
    and "answer_view_open u' = answer_view_open u" by simp_all
qed

lemma call_part_001_display:
  assumes "call_part_001 env question videoSummary answer_chunk ([], u) pc = (answer, (shown, u'), pc')"
    and "pc_initialized pc" and "session pc"
    and "session_promptStreaming env (AnswerPrompt question videoSummary False) = Inr (chunks, failure)"
    and "chunks \<noteq> []" and "answer_view_open u"
  shows "chatboxContent u' = Some (Shown (concat chunks))"
proof -
  obtain fa sh ux where loop:
    "for_await_chunks (Some answer_chunk) chunks ([], ([], u)) = (fa, (sh, ux))"
    by (metis prod.exhaust)
  have "ux = u'"
    using assms loop
    by (auto simp add: call_part_001_def generateAnswer_part_001_def Let_def
             split: option.splits)
  with for_await_answer_chunk [OF loop] assms(5,6) show ?thesis by simp
qed

lemma call_promptClient_frame:
  assumes "call_promptClient env question videoSummary answer_chunk ([], u) pc = (answer, (shown, u'), pc')"
  shows "u' = u"
  using assms
  by (auto simp add: call_promptClient_def generateAnswer_def Let_def for_await_without_callback
           split: if_splits sum.splits option.splits prod.splits)

lemma answer_failed_view:
  "answer_view_open (uiOverlay a) \<Longrightarrow>
   chatboxContent (uiOverlay (answer_failed a)) = Some (Shown apology)"
  "conversationHistory (uiOverlay (answer_failed a)) = conversationHistory (uiOverlay a)"
  "\<not> isStreaming (uiOverlay (answer_failed a))"
  by (simp_all add: answer_failed_def finishStreaming_None updateChatboxContent_shown
        updateChatboxContent_frame)

lemma handleQuestionClick_paths:
  assumes "isInitialized a"
  shows "(\<exists>ax. uiOverlay ax = showChatbox question None None (uiOverlay a) \<and>
            assistant_handleQuestionClick call env question index start_arg end_arg a =
              answer_failed ax \<and>
            ((\<exists>err. getTranscriptChunk env (start_arg - summaryBuffer a)
                      (end_arg + summaryBuffer a) = Inl err) \<or>
             (\<exists>err. getTranscriptChunk env start_arg end_arg = Inl err) \<or>
             getTranscriptChunk env start_arg end_arg = Inr None)) \<or>
         (\<exists>videoSummary answer shown u1 pc1 transcriptContext.
            getTranscriptChunk env start_arg end_arg = Inr (Some transcriptContext) \<and>
            call env question videoSummary answer_chunk
              ([], showChatbox question None None (uiOverlay a)) (promptClient a) =
              (answer, (shown, u1), pc1) \<and>
            uiOverlay (assistant_handleQuestionClick call env question index start_arg end_arg a) =
              finishStreaming None u1)"
proof -
  let ?a1 = "a\<lparr>uiOverlay := showChatbox question None None (uiOverlay a)\<rparr>"
  let ?summarised =
    "if sc_initialized (summarizerClient ?a1)
     then (case getTranscriptChunk env (start_arg - summaryBuffer ?a1)
                  (end_arg + summaryBuffer ?a1) of
             Inl e \<Rightarrow> Inl e
           | Inr txt \<Rightarrow>
               Inr (getSummaryForTime env txt (start_arg - summaryBuffer ?a1)
                      (end_arg + summaryBuffer ?a1) (summarizerClient ?a1)))
     else Inr ([], summarizerClient ?a1)"
  show ?thesis
  proof (cases ?summarised)
    case (Inl e)
    then have "assistant_handleQuestionClick call env question index start_arg end_arg a =
        answer_failed ?a1"
      using assms by (simp add: assistant_handleQuestionClick_def Let_def)
    moreover have "\<exists>err. getTranscriptChunk env (start_arg - summaryBuffer a)
        (end_arg + summaryBuffer a) = Inl err"
      using Inl by (auto split: if_splits sum.splits)
    ultimately show ?thesis by (intro disjI1 exI [of _ ?a1]) simp
  next
    case (Inr pair)
    obtain videoSummary sc1 where pair: "pair = (videoSummary, sc1)" by (cases pair)
    let ?a2 = "?a1\<lparr>summarizerClient := sc1\<rparr>"
    show ?thesis
    proof (cases "getTranscriptChunk env start_arg end_arg")
      case fail: (Inl e)
      have "assistant_handleQuestionClick call env question index start_arg end_arg a =
          answer_failed ?a2"
        using assms Inr pair fail by (simp add: assistant_handleQuestionClick_def Let_def)
      with fail show ?thesis by (intro disjI1 exI [of _ ?a2]) simp
    next
      case fetched: (Inr ctx)
      show ?thesis
      proof (cases ctx)
        case None
        have "assistant_handleQuestionClick call env question index start_arg end_arg a =
            answer_failed ?a2"
          using assms Inr pair fetched None
          by (simp add: assistant_handleQuestionClick_def Let_def)
        with fetched None show ?thesis by (intro disjI1 exI [of _ ?a2]) simp
      next
        case (Some transcriptContext)
        obtain answer shown u1 pc1 where res:
          "call env question videoSummary answer_chunk
             ([], showChatbox question None None (uiOverlay a)) (promptClient a) =
           (answer, (shown, u1), pc1)"
          by (metis prod.exhaust)
        have "uiOverlay (assistant_handleQuestionClick call env question index start_arg end_arg a) =
            finishStreaming None u1"
          using assms Inr pair fetched Some res
          by (simp add: assistant_handleQuestionClick_def Let_def)
        with res fetched Some show ?thesis
          by (intro disjI2 exI [of _ videoSummary] exI [of _ answer] exI [of _ shown]
                exI [of _ u1] exI [of _ pc1] exI [of _ transcriptContext]) simp
      qed
    qed
  qed
qed

text \<open>
  Claim C2 (the code departs from it). The callback of \<open>handleQuestionClick\<close> appends
  each chunk to what it has shown so far. When the answer method takes the callback as
  its third parameter, the answer view shows the concatenation of all chunks received;
  when the third parameter is \<open>videoFrame\<close>, the callback is never called and the view
  stays on the loading indicator. In neither case does it show the latest chunk.
\<close>

theorem streamed_chunks_concatenated:
  assumes "isInitialized a" and "pc_initialized (promptClient a)" and "session (promptClient a)"
    and "\<forall>p. session_promptStreaming env p = Inr (chunks, failure)"
    and "\<forall>s e. \<exists>txt. getTranscriptChunk env s e = Inr (Some txt)"
  shows "(chunks \<noteq> [] \<longrightarrow>
            chatboxContent (uiOverlay
              (assistant_handleQuestionClick call_part_001 env question index start_arg end_arg a)) =
              Some (Shown (concat chunks))) \<and>
         chatboxContent (uiOverlay
           (assistant_handleQuestionClick call_promptClient env question index start_arg end_arg a)) =
           Some Loading"
proof -
  let ?opened = "showChatbox question None None (uiOverlay a)"
  have fetch: "\<And>s e. \<not> (\<exists>err. getTranscriptChunk env s e = Inl err)"
    "getTranscriptChunk env start_arg end_arg \<noteq> Inr None"
  proof -
    fix s e
    from assms(5) obtain got where "getTranscriptChunk env s e = Inr (Some got)" by blast
    then show "\<not> (\<exists>err. getTranscriptChunk env s e = Inl err)" by simp
  next
    from assms(5) obtain got where "getTranscriptChunk env start_arg end_arg = Inr (Some got)"
      by blast
    then show "getTranscriptChunk env start_arg end_arg \<noteq> Inr None" by simp
  qed
  have first: "chatboxContent (uiOverlay
      (assistant_handleQuestionClick call_part_001 env question index start_arg end_arg a)) =
      Some (Shown (concat chunks))" if "chunks \<noteq> []"
  proof -
    from handleQuestionClick_paths [OF assms(1), of question call_part_001 env index start_arg end_arg]
      fetch
    obtain videoSummary answer shown u1 pc1 where
      call: "call_part_001 env question videoSummary answer_chunk ([], ?opened) (promptClient a) =
               (answer, (shown, u1), pc1)"
      and res: "uiOverlay (assistant_handleQuestionClick call_part_001 env question index
                  start_arg end_arg a) = finishStreaming None u1"
      by blast
    have "chatboxContent u1 = Some (Shown (concat chunks))"
      using call_part_001_display [OF call assms(2,3) _ that showChatbox_view(1)] assms(4)
      by simp
    with res show ?thesis by (simp add: finishStreaming_None)
  qed
  have second: "chatboxContent (uiOverlay
      (assistant_handleQuestionClick call_promptClient env question index start_arg end_arg a)) =
      Some Loading"
  proof -
    from handleQuestionClick_paths [OF assms(1), of question call_promptClient env index
           start_arg end_arg] fetch
    obtain videoSummary answer shown u1 pc1 where
      call: "call_promptClient env question videoSummary answer_chunk ([], ?opened)
               (promptClient a) = (answer, (shown, u1), pc1)"
      and res: "uiOverlay (assistant_handleQuestionClick call_promptClient env question index
                  start_arg end_arg a) = finishStreaming None u1"
      by blast
    from call_promptClient_frame [OF call] res show ?thesis
      by (simp add: finishStreaming_None showChatbox_view)
  qed
  from first second show ?thesis by blast
qed

theorem streamed_chunks_concatenated_witness:
  "isInitialized example_assistant \<and>
   pc_initialized (promptClient example_assistant) \<and> session (promptClient example_assistant) \<and>
   chatboxContent (uiOverlay (assistant_handleQuestionClick call_part_001
      (streaming_env [''Hi''] None)
      ''Why does it fall?'' 0 30 60 example_assistant)) = Some (Shown ''Hi'') \<and>
   chatboxContent (uiOverlay (assistant_handleQuestionClick call_part_001
      (streaming_env [''Hi'', ''Hi there''] None)
      ''Why does it fall?'' 0 30 60 example_assistant)) = Some (Shown ''HiHi there'') \<and>
   chatboxContent (uiOverlay (assistant_handleQuestionClick call_part_001
      (streaming_env [''Hi'', ''Hi there'', ''Hi there!''] None)
      ''Why does it fall?'' 0 30 60 example_assistant)) = Some (Shown ''HiHi thereHi there!'') \<and>
   chatboxContent (uiOverlay (assistant_handleQuestionClick call_promptClient
      (streaming_env [''Hi'', ''Hi there'', ''Hi there!''] None)
      ''Why does it fall?'' 0 30 60 example_assistant)) = Some Loading"
  using streamed_chunks_concatenated [of example_assistant
          "streaming_env [''Hi'', ''Hi there'', ''Hi there!''] None"
          "[''Hi'', ''Hi there'', ''Hi there!'']" None "''Why does it fall?''" 0 30 60]
    streamed_chunks_concatenated [of example_assistant
          "streaming_env [''Hi'', ''Hi there''] None"
          "[''Hi'', ''Hi there'']" None "''Why does it fall?''" 0 30 60]
    streamed_chunks_concatenated [of example_assistant
          "streaming_env [''Hi''] None"
          "[''Hi'']" None "''Why does it fall?''" 0 30 60]
  by (simp add: streaming_env_def example_assistant_def constructor_assistant_def)

text \<open>
  Claim C8 (the code departs from it). Whatever the collaborators do, a question click
  ends with streaming off and with the conversation holding the user's turn alone:
  \<open>finishStreaming\<close> is called without an answer, so no assistant turn is appended.
  When the transcript source throws the apology is shown; when the language model rejects
  the request the view stays on the loading indicator.
\<close>

theorem failed_answer_records_no_turn:
  assumes "isInitialized a" and "call = call_promptClient \<or> call = call_part_001"
  shows "conversationHistory
           (uiOverlay (assistant_handleQuestionClick call env question index start_arg end_arg a)) =
           [\<lparr>role = User, content = question\<rparr>] \<and>
         \<not> isStreaming
           (uiOverlay (assistant_handleQuestionClick call env question index start_arg end_arg a)) \<and>
         (getTranscriptChunk env start_arg end_arg = Inl CollaboratorError \<longrightarrow>
            chatboxContent
              (uiOverlay (assistant_handleQuestionClick call env question index start_arg end_arg a)) =
              Some (Shown apology))"
proof -
  let ?opened = "showChatbox question None None (uiOverlay a)"
  let ?result = "assistant_handleQuestionClick call env question index start_arg end_arg a"
  from handleQuestionClick_paths [OF assms(1), of question call env index start_arg end_arg]
  consider (failed) ax where "uiOverlay ax = ?opened" "?result = answer_failed ax"
    | (answered) videoSummary answer shown u1 pc1 transcriptContext where
        "getTranscriptChunk env start_arg end_arg = Inr (Some transcriptContext)"
        "call env question videoSummary answer_chunk ([], ?opened) (promptClient a) =
           (answer, (shown, u1), pc1)"
        "uiOverlay ?result = finishStreaming None u1"
    by blast
  then show ?thesis
  proof cases
    case failed
    then show ?thesis
      using answer_failed_view [of ax] showChatbox_view [of question None None "uiOverlay a"]
      by simp
  next
    case answered
    have "conversationHistory u1 = conversationHistory ?opened"
      using assms(2) answered(2) call_part_001_frame(1) call_promptClient_frame by blast
    with answered(1,3) show ?thesis
      by (simp add: finishStreaming_None showChatbox_view)
  qed
qed

theorem failed_answer_records_no_turn_witness:
  "isInitialized example_assistant \<and>
   getTranscriptChunk no_transcript_env 30 60 = Inl CollaboratorError \<and>
   conversationHistory (uiOverlay (assistant_handleQuestionClick call_part_001 no_transcript_env
      ''Why does it fall?'' 0 30 60 example_assistant)) =
     [\<lparr>role = User, content = ''Why does it fall?''\<rparr>] \<and>
   chatboxContent (uiOverlay (assistant_handleQuestionClick call_part_001 no_transcript_env
      ''Why does it fall?'' 0 30 60 example_assistant)) = Some (Shown apology) \<and>
   conversationHistory (uiOverlay (assistant_handleQuestionClick call_part_001 rejecting_env
      ''Why does it fall?'' 0 30 60 example_assistant)) =
     [\<lparr>role = User, content = ''Why does it fall?''\<rparr>] \<and>
   chatboxContent (uiOverlay (assistant_handleQuestionClick call_part_001 rejecting_env
      ''Why does it fall?'' 0 30 60 example_assistant)) = Some Loading"
  using failed_answer_records_no_turn [of example_assistant call_part_001 no_transcript_env
          "''Why does it fall?''" 0 30 60]
  by (simp add: assistant_handleQuestionClick_def answer_failed_def call_part_001_def
        generateAnswer_part_001_def no_transcript_env_def rejecting_env_def streaming_env_def
        example_assistant_def constructor_assistant_def showChatbox_def destroyChatbox_def
        finishStreaming_def updateChatboxContent_def example_overlay_def constructor_ui_def)

end
